theory Spec2Isabelle
  imports Main "HOL-Library.Word"
begin

section \<open>JavaScript values used by the two servers\<close>

text \<open>
  Request fields, cookies and stored tenant attributes are strings that may be missing
  (\<^verbatim>\<open>undefined\<close> or \<^verbatim>\<open>null\<close>): a \<open>string option\<close>. A condition on such a value
  is JavaScript truthiness: missing and the empty string are false.
\<close>

definition truthy :: "string option \<Rightarrow> bool" where
  "truthy v = (case v of None \<Rightarrow> False | Some s \<Rightarrow> s \<noteq> [])"

text \<open>\<^verbatim>\<open>a || b\<close> on two such values.\<close>

definition orElse :: "string option \<Rightarrow> string option \<Rightarrow> string option" where
  "orElse a b = (if truthy a then a else b)"

text \<open>A value interpolated into a template literal: \<^verbatim>\<open>`${null}`\<close> is the text null.\<close>

definition interp :: "string option \<Rightarrow> string" where
  "interp v = (case v of None \<Rightarrow> ''null'' | Some s \<Rightarrow> s)"

text \<open>\<^verbatim>\<open>String.prototype.startsWith\<close>, \<^verbatim>\<open>includes\<close> and \<^verbatim>\<open>endsWith\<close>.\<close>

definition startsWith :: "string \<Rightarrow> string \<Rightarrow> bool" where
  "startsWith s p = (take (length p) s = p)"

fun includesStr :: "string \<Rightarrow> string \<Rightarrow> bool" where
  "includesStr [] p = (p = [])"
| "includesStr (c # cs) p = (startsWith (c # cs) p \<or> includesStr cs p)"

definition endsWith :: "string \<Rightarrow> string \<Rightarrow> bool" where
  "endsWith s p = (length p \<le> length s \<and> drop (length s - length p) s = p)"

text \<open>\<^verbatim>\<open>s.split('.')[0]\<close>: the text before the first dot, the whole string when it has none.\<close>

definition firstLabel :: "string \<Rightarrow> string" where
  "firstLabel s = takeWhile (\<lambda>c. c \<noteq> CHR ''.'') s"

section \<open>The tenant directory\<close>

record domainSettings =
  favicon :: "string option"
  customCSS :: "string option"
  logoUrl :: "string option"
  brandColor :: "string option"

text \<open>
  A document of \<^verbatim>\<open>TenantSchema\<close> (api/server.js). \<open>id'\<close> is \<^verbatim>\<open>_id\<close>, already in the
  string form that \<^verbatim>\<open>_id.toString()\<close> gives.
\<close>

record tenant =
  id' :: string
  name :: string
  domain :: string
  apiKey :: string
  customDomain :: "string option"
  subdomain :: "string option"
  subdomainPassword :: "string option"
  domainVerified :: bool
  domainSettings :: domainSettings

text \<open>
  The collection is a list in storage order; \<^verbatim>\<open>Tenant.findOne(q)\<close> is the first document
  that satisfies the query, \<open>find q\<close>.
\<close>

type_synonym directory = "tenant list"

text \<open>An error reply is its HTTP status and its \<^verbatim>\<open>error\<close> message.\<close>

type_synonym httpError = "nat \<times> string"

section \<open>Domain resolver of the API process\<close>

text \<open>
  \<^verbatim>\<open>identifyTenantByDomain\<close> of api/server.js; the result is \<^verbatim>\<open>req.domainTenant\<close>.
  The parent domain is tested with \<^verbatim>\<open>host.includes('.docforge.com')\<close>. The host is the
  text of the \<^verbatim>\<open>Host\<close> header, port included when the client sends one.
\<close>

definition identifyTenantByDomain :: "directory \<Rightarrow> string \<Rightarrow> tenant option" where
  "identifyTenantByDomain tenants host =
     (case find (\<lambda>t. customDomain t = Some host) tenants of
        Some t \<Rightarrow> Some t
      | None \<Rightarrow>
          if includesStr host ''.docforge.com''
          then find (\<lambda>t. subdomain t = Some (firstLabel host)) tenants
          else None)"

section \<open>Tenant lookup by domain\<close>

text \<open>The JSON body of a successful \<^verbatim>\<open>POST /api/tenant/by-domain\<close>.\<close>

record tenantJson =
  r_id :: string
  r_name :: string
  r_domain :: string
  r_apiKey :: string
  r_customDomain :: "string option"
  r_subdomain :: "string option"
  r_subdomainPassword :: "string option"
  r_domainVerified :: bool
  r_domainSettings :: domainSettings

text \<open>
  The route is registered without \<^verbatim>\<open>verifyApiKey\<close>: the \<^verbatim>\<open>x-api-key\<close> header of the
  request (first argument after the directory) is never read. \<open>byDomainBody\<close> is the
  object literal handed to \<^verbatim>\<open>res.json\<close>.
\<close>

definition byDomainBody :: "tenant \<Rightarrow> tenantJson" where
  "byDomainBody t =
     \<lparr> r_id = id' t, r_name = name t, r_domain = domain t, r_apiKey = apiKey t,
       r_customDomain = customDomain t, r_subdomain = subdomain t,
       r_subdomainPassword = subdomainPassword t,
       r_domainVerified = domainVerified t,
       r_domainSettings = domainSettings t \<rparr>"

definition postTenantByDomain ::
  "directory \<Rightarrow> string option \<Rightarrow> string \<Rightarrow> string \<Rightarrow> httpError + tenantJson" where
  "postTenantByDomain tenants xApiKey dmn kind =
     (let found =
        (if kind = ''custom'' then find (\<lambda>t. customDomain t = Some dmn) tenants
         else if kind = ''subdomain'' then find (\<lambda>t. subdomain t = Some dmn) tenants
         else None)
      in case found of
           None \<Rightarrow> Inl (404, ''Tenant not found'')
         | Some t \<Rightarrow> Inr (byDomainBody t))"

section \<open>Domain resolver and gate of the frontend process\<close>

text \<open>
  \<^verbatim>\<open>apiCall\<close> returns the body of a successful reply and \<^verbatim>\<open>null\<close> on any error status.
  The frontend sends no API key with its lookups.
\<close>

definition apiCall_byDomain :: "directory \<Rightarrow> string \<Rightarrow> string \<Rightarrow> tenantJson option" where
  "apiCall_byDomain tenants dmn kind =
     (case postTenantByDomain tenants None dmn kind of Inl e \<Rightarrow> None | Inr body \<Rightarrow> Some body)"

text \<open>The tenant resolution of the frontend's \<^verbatim>\<open>identifyTenantByDomain\<close> (lines 48 to 69).\<close>

definition resolveFrontend :: "directory \<Rightarrow> string \<Rightarrow> tenantJson option" where
  "resolveFrontend tenants host =
     (case apiCall_byDomain tenants host ''custom'' of
        Some t \<Rightarrow> Some t
      | None \<Rightarrow>
          if includesStr host ''.docforge.com''
          then apiCall_byDomain tenants (firstLabel host) ''subdomain''
          else None)"

text \<open>
  What a gate does with a request. \<open>EXEMPT\<close> is a \<^verbatim>\<open>return next()\<close> that the source
  comments as skipping the check, \<open>ALLOW\<close> any other \<^verbatim>\<open>next()\<close>, \<open>CHALLENGE u\<close> is
  \<^verbatim>\<open>res.redirect(u)\<close>.
\<close>

datatype decision = EXEMPT | ALLOW | CHALLENGE string

definition staticOrApi :: "string \<Rightarrow> bool" where
  "staticOrApi path =
     (startsWith path ''/api/'' \<or> startsWith path ''/css/'' \<or>
      startsWith path ''/js/'' \<or> startsWith path ''/images/'')"

type_synonym cookies = "string \<rightharpoonup> string"

text \<open>
  The frontend's middleware \<^verbatim>\<open>identifyTenantByDomain\<close>. The second component is
  \<^verbatim>\<open>req.domainTenant\<close> as the middleware leaves it (\<^verbatim>\<open>req.autoApiKey\<close> is its
  \<open>r_apiKey\<close>). A cookie is only tested for presence.
\<close>

definition frontendGate ::
  "directory \<Rightarrow> string \<Rightarrow> string \<Rightarrow> cookies \<Rightarrow> decision \<times> tenantJson option" where
  "frontendGate tenants host path cks =
     (if staticOrApi path then (EXEMPT, None)
      else case resolveFrontend tenants host of
        None \<Rightarrow> (ALLOW, None)
      | Some t \<Rightarrow>
          if truthy (r_subdomain t) \<and> truthy (r_subdomainPassword t) then
            (let sessionToken = cks (''subdomain_auth_'' @ interp (r_subdomain t)) in
             if path = ''/subdomain-login'' then (EXEMPT, Some t)
             else if \<not> truthy sessionToken
               then (CHALLENGE (''/subdomain-login?subdomain='' @ interp (r_subdomain t)), Some t)
             else (ALLOW, Some t))
          else (ALLOW, Some t))"

section \<open>Session store and gate of the API process\<close>

text \<open>A value of the map \<^verbatim>\<open>subdomainSessions\<close>; times are milliseconds as \<^verbatim>\<open>Date.now()\<close> gives them.\<close>

record session =
  tenantId :: string
  s_subdomain :: "string option"
  expires :: int

type_synonym sessions = "string \<rightharpoonup> session"

text \<open>
  \<^verbatim>\<open>verifySubdomainAccess\<close>, given \<^verbatim>\<open>req.domainTenant\<close>. The second component is
  \<^verbatim>\<open>req.authenticatedTenant\<close>. Whether the tenant has a password is not looked at, and
  the login page is not among the skipped paths.
\<close>

definition verifySubdomainAccess ::
  "sessions \<Rightarrow> int \<Rightarrow> string \<Rightarrow> cookies \<Rightarrow> tenant option \<Rightarrow> decision \<times> tenant option" where
  "verifySubdomainAccess subdomainSessions now path cks domainTenant =
     (if staticOrApi path then (EXEMPT, None)
      else case domainTenant of
        None \<Rightarrow> (ALLOW, None)
      | Some t \<Rightarrow>
          (let redirect = (CHALLENGE (''/subdomain-login?subdomain='' @ interp (subdomain t)), None)
           in case cks (''subdomain_auth_'' @ interp (subdomain t)) of
                None \<Rightarrow> redirect
              | Some sessionToken \<Rightarrow>
                  if sessionToken = [] then redirect
                  else case subdomainSessions sessionToken of
                         None \<Rightarrow> redirect
                       | Some session \<Rightarrow>
                           if tenantId session = id' t \<and> expires session > now
                           then (ALLOW, Some t)
                           else redirect))"

text \<open>The two middlewares of the API process in the order a request meets them.\<close>

definition apiGate ::
  "directory \<Rightarrow> sessions \<Rightarrow> int \<Rightarrow> string \<Rightarrow> string \<Rightarrow> cookies \<Rightarrow> decision \<times> tenant option" where
  "apiGate tenants subdomainSessions now host path cks =
     verifySubdomainAccess subdomainSessions now path cks (identifyTenantByDomain tenants host)"

section \<open>Credential issuer\<close>

text \<open>\<^verbatim>\<open>Buffer.toString('hex')\<close>: two lower-case digits for each byte.\<close>

definition hexDigit :: "nat \<Rightarrow> char" where
  "hexDigit n = ''0123456789abcdef'' ! (n mod 16)"

definition byteHex :: "8 word \<Rightarrow> string" where
  "byteHex b = [hexDigit (unat b div 16), hexDigit (unat b mod 16)]"

definition toHex :: "8 word list \<Rightarrow> string" where
  "toHex bs = concat (map byteHex bs)"

text \<open>
  \<^verbatim>\<open>generateSubdomainToken\<close>. The argument is \<^verbatim>\<open>crypto.randomBytes\<close>, the generator of the
  platform: asked for \<open>n\<close> bytes it returns \<open>n\<close> bytes.
\<close>

definition generateSubdomainToken :: "(nat \<Rightarrow> 8 word list) \<Rightarrow> string" where
  "generateSubdomainToken randomBytes = toHex (randomBytes 32)"

record cookie =
  cookieName :: string
  cookieValue :: string
  httpOnly :: bool
  secure :: bool
  maxAge :: int

text \<open>
  \<^verbatim>\<open>POST /api/subdomain/login\<close>. A reply is an error or the \<^verbatim>\<open>redirectUrl\<close> of a success,
  then the cookie it sets, then the session store after the call. \<open>nodeEnv\<close> is
  \<^verbatim>\<open>process.env.NODE_ENV\<close>.

  The body of the route is a \<^verbatim>\<open>try\<close> block whose \<^verbatim>\<open>catch\<close> replies 500 with the message
  of the error. \<^verbatim>\<open>res.cookie\<close> of Express serialises the cookie with the \<^verbatim>\<open>cookie\<close>
  package, which throws a \<^verbatim>\<open>TypeError\<close> for a name it does not accept; the value, a
  hexadecimal text, and the options of this call are always accepted. Neither package is
  part of the repository, so the check is the argument \<open>cookieError\<close>: the message of the
  error thrown for a name, \<open>None\<close> for a name that is accepted. The session is stored
  (line 715) before \<^verbatim>\<open>res.cookie\<close> is called (line 718): when the call throws, the
  session stays in the store and no cookie is set.
\<close>

definition postSubdomainLogin ::
  "directory \<Rightarrow> sessions \<Rightarrow> int \<Rightarrow> (nat \<Rightarrow> 8 word list) \<Rightarrow> (string \<Rightarrow> string option)
     \<Rightarrow> string option \<Rightarrow> string \<Rightarrow> string
     \<Rightarrow> (httpError + string) \<times> cookie option \<times> sessions" where
  "postSubdomainLogin tenants subdomainSessions now randomBytes cookieError nodeEnv
       subdomainArg password =
     (case find (\<lambda>t. subdomain t = Some subdomainArg) tenants of
        None \<Rightarrow> (Inl (404, ''Subdomain not found''), None, subdomainSessions)
      | Some t \<Rightarrow>
          if \<not> truthy (subdomainPassword t) \<or> subdomainPassword t \<noteq> Some password
          then (Inl (401, ''Invalid password''), None, subdomainSessions)
          else
            (let sessionToken = generateSubdomainToken randomBytes;
                 session = \<lparr> tenantId = id' t, s_subdomain = subdomain t,
                             expires = now + 24 * 60 * 60 * 1000 \<rparr>;
                 stored = subdomainSessions(sessionToken \<mapsto> session)
             in case cookieError (''subdomain_auth_'' @ subdomainArg) of
                  Some message \<Rightarrow> (Inl (500, message), None, stored)
                | None \<Rightarrow>
                    (Inr ''/dashboard'',
                     Some \<lparr> cookieName = ''subdomain_auth_'' @ subdomainArg,
                            cookieValue = sessionToken,
                            httpOnly = True,
                            secure = (nodeEnv = Some ''production''),
                            maxAge = 24 * 60 * 60 * 1000 \<rparr>,
                     stored)))"

section \<open>Tenant configuration routes\<close>

definition verifyApiKey :: "directory \<Rightarrow> string option \<Rightarrow> httpError + tenant" where
  "verifyApiKey tenants xApiKey =
     (if \<not> truthy xApiKey then Inl (401, ''API key required'')
      else case find (\<lambda>t. Some (apiKey t) = xApiKey) tenants of
             None \<Rightarrow> Inl (401, ''Invalid API key'')
           | Some t \<Rightarrow> Inr t)"

text \<open>\<^verbatim>\<open>tenant.save()\<close>: the stored document with the same \<^verbatim>\<open>_id\<close> becomes \<open>t\<close>.\<close>

definition save :: "tenant \<Rightarrow> directory \<Rightarrow> directory" where
  "save t tenants = map (\<lambda>u. if id' u = id' t then t else u) tenants"

text \<open>
  The two format checks. The pattern of \<^verbatim>\<open>isValidSubdomain\<close> is one label: 2 to 63
  characters, letters, digits and hyphens, no hyphen first or last. \<^verbatim>\<open>isValidDomain\<close> is
  one or more such labels separated by dots.
\<close>

definition isAlnum :: "char \<Rightarrow> bool" where
  "isAlnum c =
     (let n = (of_char c :: nat)
      in (48 \<le> n \<and> n \<le> 57) \<or> (65 \<le> n \<and> n \<le> 90) \<or> (97 \<le> n \<and> n \<le> 122))"

definition isValidSubdomain :: "string \<Rightarrow> bool" where
  "isValidSubdomain s =
     (2 \<le> length s \<and> length s \<le> 63 \<and> isAlnum (hd s) \<and> isAlnum (last s) \<and>
      list_all (\<lambda>c. isAlnum c \<or> c = CHR ''-'') s)"

fun splitOn :: "char \<Rightarrow> string \<Rightarrow> string list" where
  "splitOn d [] = [[]]"
| "splitOn d (c # cs) =
     (if c = d then [] # splitOn d cs
      else case splitOn d cs of
             [] \<Rightarrow> [[c]]
           | w # ws \<Rightarrow> (c # w) # ws)"

definition isValidDomain :: "string \<Rightarrow> bool" where
  "isValidDomain s = list_all isValidSubdomain (splitOn CHR ''.'' s)"

text \<open>
  \<^verbatim>\<open>POST /api/tenant/domain\<close>. A success replies with the three fields it has set.
\<close>

definition postTenantDomain ::
  "directory \<Rightarrow> string option \<Rightarrow> string option \<Rightarrow> string option
     \<Rightarrow> (httpError + string option \<times> string option \<times> bool) \<times> directory" where
  "postTenantDomain tenants xApiKey customDomainArg subdomainArg =
     (case verifyApiKey tenants xApiKey of
        Inl e \<Rightarrow> (Inl e, tenants)
      | Inr t \<Rightarrow>
          if truthy customDomainArg \<and> \<not> isValidDomain (interp customDomainArg)
            then (Inl (400, ''Invalid custom domain format''), tenants)
          else if truthy subdomainArg \<and> \<not> isValidSubdomain (interp subdomainArg)
            then (Inl (400, ''Invalid subdomain format''), tenants)
          else if truthy customDomainArg \<and>
                  find (\<lambda>u. customDomain u = customDomainArg \<and> id' u \<noteq> id' t) tenants \<noteq> None
            then (Inl (400, ''Custom domain already in use''), tenants)
          else if truthy subdomainArg \<and>
                  find (\<lambda>u. subdomain u = subdomainArg \<and> id' u \<noteq> id' t) tenants \<noteq> None
            then (Inl (400, ''Subdomain already in use''), tenants)
          else
            (let t' = t\<lparr> customDomain := orElse customDomainArg None,
                         subdomain := orElse subdomainArg None,
                         domainVerified := False \<rparr>
             in (Inr (customDomain t', subdomain t', domainVerified t'), save t' tenants)))"

text \<open>
  \<^verbatim>\<open>POST /api/tenant/verify-domain\<close>; \<open>pointing\<close> is the answer of \<^verbatim>\<open>verifyDomainPointing\<close>,
  a DNS query.
\<close>

definition postTenantVerifyDomain ::
  "directory \<Rightarrow> string option \<Rightarrow> bool \<Rightarrow> (httpError + bool) \<times> directory" where
  "postTenantVerifyDomain tenants xApiKey pointing =
     (case verifyApiKey tenants xApiKey of
        Inl e \<Rightarrow> (Inl e, tenants)
      | Inr t \<Rightarrow>
          if \<not> truthy (customDomain t) then (Inl (400, ''No custom domain configured''), tenants)
          else (Inr pointing, save (t\<lparr> domainVerified := pointing \<rparr>) tenants))"

text \<open>\<^verbatim>\<open>POST /api/tenant/branding\<close>.\<close>

definition postTenantBranding ::
  "directory \<Rightarrow> string option \<Rightarrow> domainSettings \<Rightarrow> (httpError + domainSettings) \<times> directory" where
  "postTenantBranding tenants xApiKey body =
     (case verifyApiKey tenants xApiKey of
        Inl e \<Rightarrow> (Inl e, tenants)
      | Inr t \<Rightarrow>
          (let ds = \<lparr> favicon = orElse (favicon body) (favicon (domainSettings t)),
                      customCSS = orElse (customCSS body) (customCSS (domainSettings t)),
                      logoUrl = orElse (logoUrl body) (logoUrl (domainSettings t)),
                      brandColor = orElse (orElse (brandColor body) (brandColor (domainSettings t)))
                                          (Some ''#3B82F6'') \<rparr>
           in (Inr ds, save (t\<lparr> domainSettings := ds \<rparr>) tenants)))"

text \<open>\<^verbatim>\<open>POST /api/tenant/subdomain-password\<close>.\<close>

definition postTenantSubdomainPassword ::
  "directory \<Rightarrow> string option \<Rightarrow> string option \<Rightarrow> (httpError + string) \<times> directory" where
  "postTenantSubdomainPassword tenants xApiKey password =
     (case verifyApiKey tenants xApiKey of
        Inl e \<Rightarrow> (Inl e, tenants)
      | Inr t \<Rightarrow>
          if \<not> truthy password \<or> length (interp password) < 6
            then (Inl (400, ''Password must be at least 6 characters''), tenants)
          else (Inr ''Subdomain password updated successfully'',
                save (t\<lparr> subdomainPassword := password \<rparr>) tenants))"

section \<open>A small directory for concrete runs\<close>

definition noBranding :: domainSettings where
  "noBranding = \<lparr> favicon = None, customCSS = None, logoUrl = None, brandColor = None \<rparr>"

definition acme :: tenant where
  "acme = \<lparr> id' = ''t1'', name = ''Acme'', domain = ''acme.com'', apiKey = ''key-acme'',
             customDomain = Some ''docs.acme.com'', subdomain = Some ''acme'',
             subdomainPassword = Some ''secret123'', domainVerified = False,
             domainSettings = noBranding \<rparr>"

definition beta :: tenant where
  "beta = \<lparr> id' = ''t2'', name = ''Beta'', domain = ''beta.io'', apiKey = ''key-beta'',
             customDomain = None, subdomain = Some ''beta'',
             subdomainPassword = None, domainVerified = False,
             domainSettings = noBranding \<rparr>"

definition gamma :: tenant where
  "gamma = \<lparr> id' = ''t3'', name = ''Gamma'', domain = ''gamma.org'', apiKey = ''key-gamma'',
              customDomain = None, subdomain = Some ''gamma'',
              subdomainPassword = Some ''hunter22'', domainVerified = False,
              domainSettings = noBranding \<rparr>"

text \<open>A tenant whose custom domain is the managed host of \<open>beta\<close>.\<close>

definition delta :: tenant where
  "delta = \<lparr> id' = ''t4'', name = ''Delta'', domain = ''delta.net'', apiKey = ''key-delta'',
              customDomain = Some ''beta.docforge.com'', subdomain = None,
              subdomainPassword = None, domainVerified = False,
              domainSettings = noBranding \<rparr>"

definition exTenants :: directory where
  "exTenants = [acme, beta, gamma]"

definition exTenants2 :: directory where
  "exTenants2 = [beta, delta]"

text \<open>A generator that answers every call with the byte \<open>0xAB\<close> repeated.\<close>

definition exRandom :: "nat \<Rightarrow> 8 word list" where
  "exRandom n = replicate n 0xAB"

text \<open>
  A name check for the runs: it accepts the names made of letters, digits, hyphens and
  underscores, which are the names a label that passes \<open>isValidSubdomain\<close> gives.
\<close>

definition exCookieError :: "string \<Rightarrow> string option" where
  "exCookieError n =
     (if n \<noteq> [] \<and> list_all (\<lambda>c. isAlnum c \<or> c = CHR ''-'' \<or> c = CHR ''_'') n then None
      else Some ''argument name is invalid'')"

text \<open>A tenant whose label holds a space; the domain route would not have stored it.\<close>

definition spaced :: tenant where
  "spaced = \<lparr> id' = ''t5'', name = ''Spaced'', domain = ''spaced.dev'', apiKey = ''key-spaced'',
               customDomain = None, subdomain = Some ''a b'',
               subdomainPassword = Some ''longpass'', domainVerified = False,
               domainSettings = noBranding \<rparr>"

text \<open>
  The token of a login as \<open>acme\<close> at time 1000 with that generator, and the session store
  the login leaves behind.
\<close>

definition exToken :: string where
  "exToken = generateSubdomainToken exRandom"

definition exStore :: sessions where
  "exStore =
     snd (snd (postSubdomainLogin exTenants Map.empty 1000 exRandom exCookieError None
                 ''acme'' ''secret123''))"

section \<open>Lookups in the directory\<close>

lemma find_unique:
  assumes "t \<in> set ts" and "P t" and "\<forall>u\<in>set ts. P u \<longrightarrow> u = t"
  shows "find P ts = Some t"
proof (cases "find P ts")
  case None
  with assms(1,2) show ?thesis by (auto simp: find_None_iff)
next
  case (Some u)
  then have "u \<in> set ts" and "P u"
    by (auto simp: find_Some_iff in_set_conv_nth)
  with assms(3) Some show ?thesis by auto
qed

lemma find_in_set: "find P ts = Some t \<Longrightarrow> t \<in> set ts \<and> P t"
  by (auto simp: find_Some_iff in_set_conv_nth)

lemma apiCall_custom:
  "apiCall_byDomain tenants d ''custom'' =
     map_option byDomainBody (find (\<lambda>t. customDomain t = Some d) tenants)"
  by (simp add: apiCall_byDomain_def postTenantByDomain_def split: option.splits)

lemma apiCall_subdomain:
  "apiCall_byDomain tenants d ''subdomain'' =
     map_option byDomainBody (find (\<lambda>t. subdomain t = Some d) tenants)"
  by (simp add: apiCall_byDomain_def postTenantByDomain_def split: option.splits)

text \<open>Both processes resolve a host to the same tenant; the frontend holds its JSON form.\<close>

lemma resolveFrontend_eq:
  "resolveFrontend tenants host = map_option byDomainBody (identifyTenantByDomain tenants host)"
proof (cases "find (\<lambda>t. customDomain t = Some host) tenants")
  case None
  then show ?thesis
    unfolding resolveFrontend_def identifyTenantByDomain_def apiCall_custom apiCall_subdomain
    by simp
next
  case (Some t)
  then show ?thesis
    unfolding resolveFrontend_def identifyTenantByDomain_def apiCall_custom apiCall_subdomain
    by simp
qed

section \<open>Substring tests\<close>

lemma startsWith_includes: "startsWith s p \<Longrightarrow> includesStr s p"
  by (cases s) (auto simp: startsWith_def)

lemma includesStr_drop: "includesStr (drop n s) p \<Longrightarrow> includesStr s p"
proof (induction s arbitrary: n)
  case Nil
  then show ?case by simp
next
  case (Cons c cs)
  show ?case
  proof (cases n)
    case 0
    with Cons.prems show ?thesis by simp
  next
    case (Suc m)
    with Cons.prems have "includesStr (drop m cs) p" by simp
    then have "includesStr cs p" by (rule Cons.IH)
    then show ?thesis by simp
  qed
qed

text \<open>A host that ends with the parent domain also contains it, so it is still looked up.\<close>

lemma endsWith_includes: "endsWith s p \<Longrightarrow> includesStr s p"
proof -
  assume "endsWith s p"
  then have "startsWith (drop (length s - length p) s) p"
    by (simp add: endsWith_def startsWith_def)
  then show ?thesis by (blast intro: startsWith_includes includesStr_drop)
qed

section \<open>C4: the lookup by domain hands out both secrets\<close>

text \<open>
  Claim C4. \<^verbatim>\<open>POST /api/tenant/by-domain\<close> asks for no credential: whatever the
  \<^verbatim>\<open>x-api-key\<close> header is (none included), a lookup of a tenant's custom domain with type
  custom, or of its subdomain with type subdomain, succeeds, and the body carries that
  tenant's \<open>apiKey\<close> and its \<open>subdomainPassword\<close> as stored. The directory holds each
  custom domain and each subdomain once.
\<close>

theorem C4_by_domain_discloses_secrets:
  assumes "t \<in> set tenants"
    and "(kind = ''custom'' \<and> customDomain t = Some d \<and>
            (\<forall>u\<in>set tenants. customDomain u = Some d \<longrightarrow> u = t)) \<or>
         (kind = ''subdomain'' \<and> subdomain t = Some d \<and>
            (\<forall>u\<in>set tenants. subdomain u = Some d \<longrightarrow> u = t))"
  shows "\<exists>body. postTenantByDomain tenants xApiKey d kind = Inr body \<and>
           r_apiKey body = apiKey t \<and> r_subdomainPassword body = subdomainPassword t"
proof -
  from assms(2) consider
      (c) "kind = ''custom''" "find (\<lambda>u. customDomain u = Some d) tenants = Some t"
    | (s) "kind = ''subdomain''" "find (\<lambda>u. subdomain u = Some d) tenants = Some t"
    using find_unique [OF assms(1), of "\<lambda>u. customDomain u = Some d"]
          find_unique [OF assms(1), of "\<lambda>u. subdomain u = Some d"]
    by blast
  then show ?thesis
  proof cases
    case c
    then show ?thesis by (simp add: postTenantByDomain_def byDomainBody_def)
  next
    case s
    then show ?thesis by (simp add: postTenantByDomain_def byDomainBody_def)
  qed
qed

text \<open>An anonymous caller who knows the label \<open>acme\<close> reads the key and the password.\<close>

theorem C4_by_domain_discloses_secrets_witness:
  "\<exists>body. postTenantByDomain exTenants None ''acme'' ''subdomain'' = Inr body \<and>
      r_apiKey body = ''key-acme'' \<and> r_subdomainPassword body = Some ''secret123''"
  using C4_by_domain_discloses_secrets [of acme exTenants "''subdomain''" "''acme''" None]
  by (simp add: exTenants_def acme_def beta_def gamma_def)

section \<open>C5: when the subdomain lookup runs\<close>

text \<open>
  Claim C5 as stated fails: the host \<^verbatim>\<open>beta.docforge.com:3000\<close> does not end with the
  parent domain and is nobody's custom domain, yet both resolvers look up its first label
  and return the tenant \<open>beta\<close>.
\<close>

theorem C5_suffix_counterexample:
  "\<not> endsWith ''beta.docforge.com:3000'' ''.docforge.com'' \<and>
   find (\<lambda>t. customDomain t = Some ''beta.docforge.com:3000'') exTenants = None \<and>
   identifyTenantByDomain exTenants ''beta.docforge.com:3000'' = Some beta \<and>
   resolveFrontend exTenants ''beta.docforge.com:3000'' = Some (byDomainBody beta)"
  by (simp add: resolveFrontend_eq identifyTenantByDomain_def endsWith_def firstLabel_def
      startsWith_def exTenants_def acme_def beta_def gamma_def)

text \<open>
  Claim C5, amended. For a host that is no tenant's custom domain, both resolvers look the
  first label up among the subdomains exactly when the host contains the text
  \<^verbatim>\<open>.docforge.com\<close> somewhere, and resolve to nothing when it does not.
\<close>

theorem C5_subdomain_lookup_guard:
  assumes "find (\<lambda>t. customDomain t = Some host) tenants = None"
  shows "identifyTenantByDomain tenants host =
           (if includesStr host ''.docforge.com''
            then find (\<lambda>t. subdomain t = Some (firstLabel host)) tenants else None) \<and>
         resolveFrontend tenants host =
           (if includesStr host ''.docforge.com''
            then map_option byDomainBody
                   (find (\<lambda>t. subdomain t = Some (firstLabel host)) tenants)
            else None)"
  using assms by (simp add: resolveFrontend_eq identifyTenantByDomain_def)

text \<open>
  The label \<open>gamma\<close> is a subdomain: under the parent domain it resolves to the tenant,
  under another parent to nothing.
\<close>

theorem C5_subdomain_lookup_guard_witness:
  "identifyTenantByDomain exTenants ''gamma.docforge.com'' = Some gamma \<and>
   resolveFrontend exTenants ''gamma.docforge.com'' = Some (byDomainBody gamma) \<and>
   identifyTenantByDomain exTenants ''gamma.example.org'' = None \<and>
   resolveFrontend exTenants ''gamma.example.org'' = None"
  using C5_subdomain_lookup_guard [of "''gamma.docforge.com''" exTenants]
        C5_subdomain_lookup_guard [of "''gamma.example.org''" exTenants]
  by (simp add: exTenants_def acme_def beta_def gamma_def startsWith_def firstLabel_def)

section \<open>C6: the custom domain is tried first\<close>

text \<open>
  Claim C6. When the host equals the custom domain of a tenant, and of no other tenant of
  the directory, both resolvers return that tenant, whatever the host looks like otherwise:
  the subdomain lookup is only reached when the custom-domain lookup finds nothing.
\<close>

theorem C6_custom_domain_first:
  assumes "t \<in> set tenants" and "customDomain t = Some host"
    and "\<forall>u\<in>set tenants. customDomain u = Some host \<longrightarrow> u = t"
  shows "identifyTenantByDomain tenants host = Some t \<and>
         resolveFrontend tenants host = Some (byDomainBody t)"
proof -
  have "find (\<lambda>u. customDomain u = Some host) tenants = Some t"
    by (rule find_unique [of t tenants "\<lambda>u. customDomain u = Some host", OF assms])
  then have "identifyTenantByDomain tenants host = Some t"
    by (simp add: identifyTenantByDomain_def)
  then show ?thesis by (simp add: resolveFrontend_eq)
qed

text \<open>
  The host \<^verbatim>\<open>beta.docforge.com\<close> is the custom domain of \<open>delta\<close> and also the managed
  host of \<open>beta\<close>: it resolves to \<open>delta\<close>.
\<close>

theorem C6_custom_domain_first_witness:
  "includesStr ''beta.docforge.com'' ''.docforge.com'' \<and>
   find (\<lambda>t. subdomain t = Some (firstLabel ''beta.docforge.com'')) exTenants2 = Some beta \<and>
   identifyTenantByDomain exTenants2 ''beta.docforge.com'' = Some delta \<and>
   resolveFrontend exTenants2 ''beta.docforge.com'' = Some (byDomainBody delta)"
  using C6_custom_domain_first [of delta exTenants2 "''beta.docforge.com''"]
  by (simp add: exTenants2_def beta_def delta_def firstLabel_def startsWith_def)

section \<open>The two gates\<close>

text \<open>
  When the API gate lets a request of a resolved tenant through: the path is not a skipped
  one and the tenant's cookie holds a token of the store whose session is bound to this
  tenant and has not expired. In every other case it redirects to the login page.
\<close>

lemma verifySubdomainAccess_ALLOW_iff:
  "fst (verifySubdomainAccess store now path cks (Some t)) = ALLOW \<longleftrightarrow>
     \<not> staticOrApi path \<and>
     (\<exists>tok s. cks (''subdomain_auth_'' @ interp (subdomain t)) = Some tok \<and> tok \<noteq> [] \<and>
        store tok = Some s \<and> tenantId s = id' t \<and> now < expires s)"
  by (auto simp: verifySubdomainAccess_def Let_def split: option.splits)

lemma verifySubdomainAccess_cases:
  "\<not> staticOrApi path \<Longrightarrow>
   fst (verifySubdomainAccess store now path cks (Some t)) = ALLOW \<or>
   fst (verifySubdomainAccess store now path cks (Some t)) =
     CHALLENGE (''/subdomain-login?subdomain='' @ interp (subdomain t))"
  by (auto simp: verifySubdomainAccess_def Let_def split: option.splits)

text \<open>
  A token of the store that is bound to the resolved tenant opens the API gate until the
  clock reaches its expiry, and not after.
\<close>

lemma verifySubdomainAccess_lifetime:
  assumes "\<not> staticOrApi path"
    and "cks (''subdomain_auth_'' @ interp (subdomain t)) = Some tok" and "tok \<noteq> []"
    and "store tok = Some s" and "tenantId s = id' t"
  shows "fst (verifySubdomainAccess store now path cks (Some t)) =
           (if now < expires s then ALLOW
            else CHALLENGE (''/subdomain-login?subdomain='' @ interp (subdomain t)))"
  using assms by (simp add: verifySubdomainAccess_def Let_def)

text \<open>The frontend gate lets every request to a tenant without a password through.\<close>

lemma frontendGate_no_password:
  "\<not> staticOrApi path \<Longrightarrow> resolveFrontend tenants host = Some t \<Longrightarrow>
   \<not> truthy (r_subdomainPassword t) \<Longrightarrow> frontendGate tenants host path cks = (ALLOW, Some t)"
  by (simp add: frontendGate_def)

text \<open>
  For a tenant with a password, the frontend gate lets every request through that carries
  a non-empty value under the tenant's cookie name, whatever the value is.
\<close>

lemma frontendGate_any_cookie:
  assumes "\<not> staticOrApi path" and "path \<noteq> ''/subdomain-login''"
    and "resolveFrontend tenants host = Some t"
    and "truthy (r_subdomain t)" and "truthy (r_subdomainPassword t)"
    and "cks (''subdomain_auth_'' @ interp (r_subdomain t)) = Some v" and "v \<noteq> []"
  shows "frontendGate tenants host path cks = (ALLOW, Some t)"
  using assms by (simp add: frontendGate_def truthy_def)

section \<open>Concrete runs\<close>

lemma exToken_value:
  "exToken = ''abababababababababababababababababababababababababababababababab''"
  by code_simp

lemma exRandom_32: "length (exRandom 32) = 32"
  by (simp add: exRandom_def)

lemma find_acme: "find (\<lambda>u. subdomain u = Some ''acme'') exTenants = Some acme"
  by (simp add: exTenants_def acme_def)

lemma exCookieError_acme: "exCookieError ''subdomain_auth_acme'' = None"
  by code_simp

lemma exCookieError_spaced: "exCookieError ''subdomain_auth_a b'' = Some ''argument name is invalid''"
  by code_simp

lemma exStore_value:
  "exStore = Map.empty(exToken \<mapsto> \<lparr> tenantId = ''t1'', s_subdomain = Some ''acme'', expires = 86401000 \<rparr>)"
  by (simp add: exStore_def exToken_def postSubdomainLogin_def find_acme truthy_def acme_def Let_def
      exCookieError_acme)

lemma staticOrApi_login: "\<not> staticOrApi ''/subdomain-login''"
  by (simp add: staticOrApi_def startsWith_def)

section \<open>C1: a cookie that names no valid session\<close>

text \<open>
  Claim C1, at the input where the frontend gate departs from it. The tenant \<open>acme\<close> has
  a subdomain password, the path is not exempt and the cookie holds the text garbage, which
  no session store knows. The frontend gate answers ALLOW: it tests only that the cookie
  is present. The gate of the API process answers CHALLENGE on the same request.
\<close>

theorem C1_frontend_accepts_garbage_cookie:
  "identifyTenantByDomain exTenants ''acme.docforge.com'' = Some acme \<and>
   subdomainPassword acme = Some ''secret123'' \<and>
   \<not> staticOrApi ''/docs'' \<and>
   fst (frontendGate exTenants ''acme.docforge.com'' ''/docs''
          (Map.empty(''subdomain_auth_acme'' \<mapsto> ''garbage''))) = ALLOW \<and>
   fst (apiGate exTenants Map.empty 0 ''acme.docforge.com'' ''/docs''
          (Map.empty(''subdomain_auth_acme'' \<mapsto> ''garbage''))) =
     CHALLENGE ''/subdomain-login?subdomain=acme''"
  by (simp add: frontendGate_def apiGate_def verifySubdomainAccess_def resolveFrontend_eq
      identifyTenantByDomain_def staticOrApi_def startsWith_def firstLabel_def truthy_def
      interp_def byDomainBody_def exTenants_def acme_def beta_def gamma_def)

section \<open>C2: a tenant without a subdomain password\<close>

text \<open>
  Claim C2, at the input where the API gate departs from it. The tenant \<open>beta\<close> has no
  subdomain password; a request to its host without cookies is redirected to the login page
  by \<^verbatim>\<open>verifySubdomainAccess\<close>, which never reads the password field. The frontend gate
  answers ALLOW on the same request.
\<close>

theorem C2_api_gate_challenges_open_tenant:
  "identifyTenantByDomain exTenants ''beta.docforge.com'' = Some beta \<and>
   subdomainPassword beta = None \<and>
   \<not> staticOrApi ''/docs'' \<and>
   fst (apiGate exTenants Map.empty 0 ''beta.docforge.com'' ''/docs'' Map.empty) =
     CHALLENGE ''/subdomain-login?subdomain=beta'' \<and>
   fst (frontendGate exTenants ''beta.docforge.com'' ''/docs'' Map.empty) = ALLOW"
  by (simp add: frontendGate_def apiGate_def verifySubdomainAccess_def resolveFrontend_eq
      identifyTenantByDomain_def staticOrApi_def startsWith_def firstLabel_def truthy_def
      interp_def byDomainBody_def exTenants_def acme_def beta_def gamma_def)

section \<open>C3: a session of another tenant\<close>

text \<open>
  Claim C3, at the input where the frontend gate departs from it. The store's only session
  was minted by a login as \<open>acme\<close> and is bound to the identifier of \<open>acme\<close>. Its token,
  presented under the cookie name of \<open>gamma\<close> on the host of \<open>gamma\<close>, is answered ALLOW
  by the frontend gate; the API gate compares the bound identifier and answers CHALLENGE.
\<close>

theorem C3_frontend_accepts_foreign_session:
  "exStore exToken = Some \<lparr> tenantId = id' acme, s_subdomain = Some ''acme'', expires = 86401000 \<rparr> \<and>
   id' acme \<noteq> id' gamma \<and>
   identifyTenantByDomain exTenants ''gamma.docforge.com'' = Some gamma \<and>
   subdomainPassword gamma = Some ''hunter22'' \<and>
   fst (frontendGate exTenants ''gamma.docforge.com'' ''/docs''
          (Map.empty(''subdomain_auth_gamma'' \<mapsto> exToken))) = ALLOW \<and>
   fst (apiGate exTenants exStore 2000 ''gamma.docforge.com'' ''/docs''
          (Map.empty(''subdomain_auth_gamma'' \<mapsto> exToken))) =
     CHALLENGE ''/subdomain-login?subdomain=gamma''"
proof -
  have g: "identifyTenantByDomain exTenants ''gamma.docforge.com'' = Some gamma"
    by (simp add: identifyTenantByDomain_def firstLabel_def startsWith_def
        exTenants_def acme_def beta_def gamma_def)
  have p: "\<not> staticOrApi ''/docs''"
    by (simp add: staticOrApi_def startsWith_def)
  have t: "exToken \<noteq> []"
    by (simp add: exToken_value)
  have s: "exStore exToken = Some \<lparr> tenantId = id' acme, s_subdomain = Some ''acme'', expires = 86401000 \<rparr>"
    by (simp add: exStore_value acme_def)
  have f: "fst (frontendGate exTenants ''gamma.docforge.com'' ''/docs''
          (Map.empty(''subdomain_auth_gamma'' \<mapsto> exToken))) = ALLOW"
    using p t by (simp add: frontendGate_def resolveFrontend_eq g byDomainBody_def gamma_def
        truthy_def interp_def)
  have a: "fst (apiGate exTenants exStore 2000 ''gamma.docforge.com'' ''/docs''
          (Map.empty(''subdomain_auth_gamma'' \<mapsto> exToken))) =
     CHALLENGE ''/subdomain-login?subdomain=gamma''"
    using p t s by (simp add: apiGate_def verifySubdomainAccess_def g interp_def gamma_def acme_def)
  show ?thesis using g s f a by (simp add: acme_def gamma_def)
qed

section \<open>C7: a successful login\<close>

lemma hexDigit_inj:
  assumes "m < 16" and "n < 16" and "hexDigit m = hexDigit n"
  shows "m = n"
proof -
  have d: "distinct ''0123456789abcdef''" by simp
  have "''0123456789abcdef'' ! m = ''0123456789abcdef'' ! n"
    using assms by (simp add: hexDigit_def)
  with d assms(1,2) show ?thesis by (simp add: nth_eq_iff_index_eq)
qed

lemma byteHex_inj:
  assumes "byteHex a = byteHex b"
  shows "a = b"
proof -
  have la: "unat a < 256" and lb: "unat b < 256"
    using unsigned_less [of a, where ?'a = nat] unsigned_less [of b, where ?'a = nat] by simp_all
  from assms have h: "hexDigit (unat a div 16) = hexDigit (unat b div 16)"
    and l: "hexDigit (unat a mod 16) = hexDigit (unat b mod 16)"
    by (simp_all add: byteHex_def)
  have "unat a div 16 = unat b div 16"
    using la lb h by (intro hexDigit_inj) auto
  moreover have "unat a mod 16 = unat b mod 16"
    using l by (intro hexDigit_inj) auto
  ultimately have "unat a = unat b"
    by (metis div_mult_mod_eq)
  then show ?thesis by (simp add: word_unat_eq_iff)
qed

lemma toHex_inj: "toHex as = toHex bs \<Longrightarrow> as = bs"
proof (induction as arbitrary: bs)
  case Nil
  then show ?case by (cases bs) (simp_all add: toHex_def byteHex_def)
next
  case (Cons a as)
  show ?case
  proof (cases bs)
    case Nil
    with Cons.prems show ?thesis by (simp add: toHex_def byteHex_def)
  next
    case (Cons b bs')
    with Cons.prems have "byteHex a @ toHex as = byteHex b @ toHex bs'"
      by (simp add: toHex_def)
    moreover have "length (byteHex a) = length (byteHex b)" by (simp add: byteHex_def)
    ultimately have "byteHex a = byteHex b" and "toHex as = toHex bs'" by simp_all
    with Cons.IH byteHex_inj Cons show ?thesis by blast
  qed
qed

lemma length_toHex: "length (toHex bs) = 2 * length bs"
  by (induction bs) (simp_all add: toHex_def byteHex_def)

text \<open>
  The tokens of 32 bytes are as many as the byte sequences of that length: the token has
  room for 256 bits, and which of the \<open>2 ^ 256\<close> tokens a login gets is the generator's
  choice.
\<close>

lemma card_tokens: "card (toHex ` {bs. length bs = 32}) = 2 ^ 256"
proof -
  have "inj_on toHex {bs. length bs = 32}"
    by (rule inj_onI) (rule toHex_inj)
  then have "card (toHex ` {bs. length bs = 32}) = card {bs :: 8 word list. length bs = 32}"
    by (rule card_image)
  moreover have "card {bs :: 8 word list. set bs \<subseteq> UNIV \<and> length bs = 32} =
                   card (UNIV :: 8 word set) ^ 32"
    by (rule card_lists_length_eq) simp
  moreover have "card (UNIV :: 8 word set) ^ 32 = 2 ^ 256"
    by (simp add: card_word flip: power_mult)
  ultimately show ?thesis by simp
qed

text \<open>
  The login after a password match, in both outcomes: the session is stored in either case;
  the reply is the redirect target with the cookie when the name of the cookie is
  accepted, and 500 with the library's message and no cookie when it is not.
\<close>

lemma postSubdomainLogin_match:
  assumes "find (\<lambda>u. subdomain u = Some sub) tenants = Some t"
    and "subdomainPassword t = Some password" and "password \<noteq> []"
  shows "postSubdomainLogin tenants store now randomBytes cookieError nodeEnv sub password =
           (let stored = store(toHex (randomBytes 32) \<mapsto>
                           \<lparr> tenantId = id' t, s_subdomain = Some sub,
                             expires = now + 24 * 60 * 60 * 1000 \<rparr>)
            in case cookieError (''subdomain_auth_'' @ sub) of
                 Some message \<Rightarrow> (Inl (500, message), None, stored)
               | None \<Rightarrow>
                   (Inr ''/dashboard'',
                    Some \<lparr> cookieName = ''subdomain_auth_'' @ sub,
                           cookieValue = toHex (randomBytes 32),
                           httpOnly = True, secure = (nodeEnv = Some ''production''),
                           maxAge = 24 * 60 * 60 * 1000 \<rparr>,
                    stored))"
proof -
  have "subdomain t = Some sub"
    using find_in_set [OF assms(1)] by simp
  with assms show ?thesis
    by (simp add: postSubdomainLogin_def generateSubdomainToken_def truthy_def Let_def
        split: option.splits)
qed

text \<open>The login replies with a success in no other case.\<close>

lemma postSubdomainLogin_success:
  assumes "fst (postSubdomainLogin tenants store now randomBytes cookieError nodeEnv sub password)
             = Inr r"
  shows "\<exists>t. find (\<lambda>u. subdomain u = Some sub) tenants = Some t \<and>
             subdomainPassword t = Some password \<and> password \<noteq> [] \<and>
             cookieError (''subdomain_auth_'' @ sub) = None"
  using assms
  by (auto simp: postSubdomainLogin_def truthy_def Let_def split: option.splits if_splits)

text \<open>A login with the right password for the label with a space: 500, and a session stays.\<close>

lemma login_spaced:
  "postSubdomainLogin [spaced] Map.empty 1000 exRandom exCookieError None ''a b'' ''longpass'' =
     (Inl (500, ''argument name is invalid''), None,
      Map.empty(exToken \<mapsto> \<lparr> tenantId = ''t5'', s_subdomain = Some ''a b'', expires = 86401000 \<rparr>))"
proof -
  have "find (\<lambda>u. subdomain u = Some ''a b'') [spaced] = Some spaced"
    by (simp add: spaced_def)
  from postSubdomainLogin_match [OF this, of "''longpass''"]
  show ?thesis
    by (simp add: spaced_def exCookieError_spaced exToken_def generateSubdomainToken_def)
qed

text \<open>
  Claim C7. When the subdomain resolves to a tenant whose stored password is the supplied,
  non-empty one, and \<^verbatim>\<open>res.cookie\<close> accepts the cookie name of the label (the condition
  under which the login is a success), the login replies with the redirect target, sets
  the cookie \<^verbatim>\<open>subdomain_auth_\<close> followed by the label, with the token as value,
  \<^verbatim>\<open>httpOnly\<close>, \<^verbatim>\<open>secure\<close> exactly in production and a \<^verbatim>\<open>maxAge\<close> of 24 hours, and adds
  to the store, under the token, a session bound to the tenant's identifier and label that
  expires 24 hours after now. The token is the hexadecimal text of the 32 bytes drawn from
  the generator: 64 characters, no other byte sequence has the same text, and the tokens
  of 32 bytes are \<open>2 ^ 256\<close> in number, so the token carries the 256 bits the generator
  supplied, one token for each of its outcomes.
\<close>

theorem C7_login_success:
  assumes "find (\<lambda>u. subdomain u = Some sub) tenants = Some t"
    and "subdomainPassword t = Some password" and "password \<noteq> []"
    and "cookieError (''subdomain_auth_'' @ sub) = None"
    and "length (randomBytes 32) = 32"
  shows "\<exists>tok.
           tok = toHex (randomBytes 32) \<and> length tok = 64 \<and>
           (\<forall>bs. toHex bs = tok \<longrightarrow> bs = randomBytes 32) \<and>
           tok \<in> toHex ` {bs. length bs = 32} \<and>
           card (toHex ` {bs. length bs = 32}) = 2 ^ 256 \<and>
           postSubdomainLogin tenants store now randomBytes cookieError nodeEnv sub password =
             (Inr ''/dashboard'',
              Some \<lparr> cookieName = ''subdomain_auth_'' @ sub, cookieValue = tok,
                     httpOnly = True, secure = (nodeEnv = Some ''production''),
                     maxAge = 24 * 60 * 60 * 1000 \<rparr>,
              store(tok \<mapsto> \<lparr> tenantId = id' t, s_subdomain = Some sub,
                               expires = now + 24 * 60 * 60 * 1000 \<rparr>))"
proof -
  have "length (toHex (randomBytes 32)) = 64"
    using assms(5) by (simp add: length_toHex)
  moreover have "\<forall>bs. toHex bs = toHex (randomBytes 32) \<longrightarrow> bs = randomBytes 32"
    by (blast dest: toHex_inj)
  moreover have "toHex (randomBytes 32) \<in> toHex ` {bs. length bs = 32}"
    using assms(5) by blast
  moreover note card_tokens
  moreover have
    "postSubdomainLogin tenants store now randomBytes cookieError nodeEnv sub password =
       (Inr ''/dashboard'',
        Some \<lparr> cookieName = ''subdomain_auth_'' @ sub, cookieValue = toHex (randomBytes 32),
               httpOnly = True, secure = (nodeEnv = Some ''production''),
               maxAge = 24 * 60 * 60 * 1000 \<rparr>,
        store(toHex (randomBytes 32) \<mapsto> \<lparr> tenantId = id' t, s_subdomain = Some sub,
                         expires = now + 24 * 60 * 60 * 1000 \<rparr>))"
    using postSubdomainLogin_match [OF assms(1,2,3)] assms(4) by simp
  ultimately show ?thesis by blast
qed

text \<open>A login as \<open>acme\<close> in production at time 1000.\<close>

theorem C7_login_success_witness:
  "postSubdomainLogin exTenants Map.empty 1000 exRandom exCookieError (Some ''production'')
       ''acme'' ''secret123'' =
     (Inr ''/dashboard'',
      Some \<lparr> cookieName = ''subdomain_auth_acme'',
             cookieValue = ''abababababababababababababababababababababababababababababababab'',
             httpOnly = True, secure = True, maxAge = 86400000 \<rparr>,
      Map.empty(''abababababababababababababababababababababababababababababababab'' \<mapsto>
        \<lparr> tenantId = ''t1'', s_subdomain = Some ''acme'', expires = 86401000 \<rparr>))"
proof -
  have p: "subdomainPassword acme = Some ''secret123''" and n: "''secret123'' \<noteq> []"
    and i: "id' acme = ''t1''"
    by (simp_all add: acme_def)
  have v: "toHex (exRandom 32) = ''abababababababababababababababababababababababababababababababab''"
    using exToken_value by (simp add: exToken_def generateSubdomainToken_def)
  show ?thesis
    using C7_login_success [where sub = "''acme''" and tenants = exTenants and t = acme
        and password = "''secret123''" and cookieError = exCookieError
        and randomBytes = exRandom and store = Map.empty and now = 1000
        and nodeEnv = "Some ''production''"]
    by (simp add: find_acme p exCookieError_acme exRandom_32 v i)
qed

section \<open>C8: a failed login\<close>

text \<open>
  Claim C8. When the subdomain matches no tenant, or the tenant found has another password
  than the supplied one (or none), the login replies with an error, 404 in the first case
  and 401 in the second, sets no cookie and returns the session store as it was.
\<close>

theorem C8_login_failure:
  assumes "find (\<lambda>u. subdomain u = Some sub) tenants = None \<or>
           (\<exists>t. find (\<lambda>u. subdomain u = Some sub) tenants = Some t \<and>
                subdomainPassword t \<noteq> Some password)"
  shows "postSubdomainLogin tenants store now randomBytes cookieError nodeEnv sub password =
           (Inl (if find (\<lambda>u. subdomain u = Some sub) tenants = None
                 then (404, ''Subdomain not found'') else (401, ''Invalid password'')),
            None, store)"
  using assms by (auto simp: postSubdomainLogin_def)

text \<open>A wrong password for \<open>acme\<close>, and a label that no tenant has.\<close>

theorem C8_login_failure_witness:
  "postSubdomainLogin exTenants exStore 1000 exRandom exCookieError None ''acme'' ''wrong'' =
     (Inl (401, ''Invalid password''), None, exStore) \<and>
   postSubdomainLogin exTenants exStore 1000 exRandom exCookieError None ''nobody'' ''secret123'' =
     (Inl (404, ''Subdomain not found''), None, exStore)"
proof -
  have a: "find (\<lambda>u. subdomain u = Some ''acme'') exTenants = None \<or>
           (\<exists>t. find (\<lambda>u. subdomain u = Some ''acme'') exTenants = Some t \<and>
                subdomainPassword t \<noteq> Some ''wrong'')"
    by (simp add: find_acme acme_def)
  have n: "find (\<lambda>u. subdomain u = Some ''nobody'') exTenants = None"
    by (simp add: exTenants_def acme_def beta_def gamma_def)
  then have b: "find (\<lambda>u. subdomain u = Some ''nobody'') exTenants = None \<or>
           (\<exists>t. find (\<lambda>u. subdomain u = Some ''nobody'') exTenants = Some t \<and>
                subdomainPassword t \<noteq> Some ''secret123'')"
    by simp
  show ?thesis
    using C8_login_failure [OF a, of exStore 1000 exRandom exCookieError None]
          C8_login_failure [OF b, of exStore 1000 exRandom exCookieError None]
    by (simp add: find_acme n)
qed

section \<open>C9: exempt paths\<close>

text \<open>
  Claim C9 as stated fails on the login page. The API gate does not skip it: for a resolved
  tenant without a session it redirects the login page to the login page. The frontend gate
  skips it only after it has resolved a tenant with a subdomain and a password, so for a host
  without tenant the request leaves the gate by the ordinary \<^verbatim>\<open>next()\<close>, and where the
  skip applies \<^verbatim>\<open>req.domainTenant\<close> has been set before.
\<close>

theorem C9_login_page_counterexample:
  "fst (apiGate exTenants Map.empty 0 ''acme.docforge.com'' ''/subdomain-login'' Map.empty) =
     CHALLENGE ''/subdomain-login?subdomain=acme'' \<and>
   frontendGate exTenants ''localhost:3000'' ''/subdomain-login'' Map.empty = (ALLOW, None) \<and>
   frontendGate exTenants ''acme.docforge.com'' ''/subdomain-login'' Map.empty =
     (EXEMPT, Some (byDomainBody acme))"
  by (simp add: frontendGate_def apiGate_def verifySubdomainAccess_def resolveFrontend_eq
      identifyTenantByDomain_def staticOrApi_def startsWith_def firstLabel_def truthy_def
      interp_def byDomainBody_def exTenants_def acme_def beta_def gamma_def)

text \<open>
  Claim C9, amended. A path that starts with \<^verbatim>\<open>/api/\<close>, \<^verbatim>\<open>/css/\<close>, \<^verbatim>\<open>/js/\<close> or
  \<^verbatim>\<open>/images/\<close> is EXEMPT in both gates, before any tenant is looked at and whatever the
  directory, host, cookies, session store, clock and resolved tenant are; the gates are
  functions of the request and of state they do not modify, so a repeated request gets the
  same answer. On the login page the frontend gate never redirects: it answers EXEMPT for
  a resolved tenant with a subdomain and a password and ALLOW otherwise.
\<close>

theorem C9_exempt_paths:
  "(staticOrApi path \<longrightarrow>
      frontendGate tenants host path cks = (EXEMPT, None) \<and>
      verifySubdomainAccess store now path cks domainTenant = (EXEMPT, None)) \<and>
   fst (frontendGate tenants host ''/subdomain-login'' cks) =
     (case resolveFrontend tenants host of
        None \<Rightarrow> ALLOW
      | Some t \<Rightarrow>
          if truthy (r_subdomain t) \<and> truthy (r_subdomainPassword t) then EXEMPT else ALLOW)"
  using staticOrApi_login
  by (simp add: frontendGate_def verifySubdomainAccess_def Let_def split: option.splits)

text \<open>A path under \<^verbatim>\<open>/api/\<close> in both gates, and the login page of \<open>acme\<close> in the frontend.\<close>

theorem C9_exempt_paths_witness:
  "frontendGate exTenants ''acme.docforge.com'' ''/api/pages'' Map.empty = (EXEMPT, None) \<and>
   verifySubdomainAccess Map.empty 0 ''/api/pages'' Map.empty (Some acme) = (EXEMPT, None) \<and>
   fst (frontendGate exTenants ''acme.docforge.com'' ''/subdomain-login'' Map.empty) = EXEMPT"
proof -
  have p: "staticOrApi ''/api/pages''"
    by (simp add: staticOrApi_def startsWith_def)
  have r: "resolveFrontend exTenants ''acme.docforge.com'' = Some (byDomainBody acme)"
    by (simp add: resolveFrontend_eq identifyTenantByDomain_def firstLabel_def startsWith_def
        exTenants_def acme_def beta_def gamma_def)
  have t: "truthy (r_subdomain (byDomainBody acme)) \<and> truthy (r_subdomainPassword (byDomainBody acme))"
    by (simp add: truthy_def byDomainBody_def acme_def)
  show ?thesis
    using p t
      C9_exempt_paths [of "''/api/pages''" exTenants "''acme.docforge.com''" Map.empty
        Map.empty 0 "Some acme"]
    by (simp add: r)
qed

section \<open>C10: the API key is never rewritten\<close>

lemma verifyApiKey_in_set: "verifyApiKey tenants k = Inr t \<Longrightarrow> t \<in> set tenants"
  by (auto simp: verifyApiKey_def split: if_splits option.splits dest: find_in_set)

lemma save_frame:
  assumes "distinct (map id' ts)" and "t \<in> set ts" and "id' t' = id' t" and "f t' = f t"
  shows "map f (save t' ts) = map f ts"
proof -
  have inj: "inj_on id' (set ts)"
    using assms(1) by (simp add: distinct_map)
  have "f (if id' u = id' t' then t' else u) = f u" if "u \<in> set ts" for u
  proof (cases "id' u = id' t'")
    case True
    with assms(3) have "id' u = id' t" by simp
    with inj that assms(2) have "u = t" by (rule_tac inj_onD)
    with True assms(4) show ?thesis by simp
  next
    case False
    then show ?thesis by simp
  qed
  then show ?thesis by (simp add: save_def)
qed

lemma postTenantDomain_frame:
  assumes "distinct (map id' tenants)"
    and "\<And>t a b c. f (t\<lparr> customDomain := a, subdomain := b, domainVerified := c \<rparr>) = f t"
  shows "map f (snd (postTenantDomain tenants k cd sd)) = map f tenants"
proof (cases "verifyApiKey tenants k")
  case (Inl e)
  then show ?thesis by (simp add: postTenantDomain_def)
next
  case (Inr t)
  then have "t \<in> set tenants" by (rule verifyApiKey_in_set)
  then have "map f (save (t\<lparr> customDomain := a, subdomain := b, domainVerified := c \<rparr>) tenants)
               = map f tenants" for a b c
    using assms by (intro save_frame [where t = t]) simp_all
  with Inr show ?thesis by (simp add: postTenantDomain_def Let_def)
qed

lemma postTenantSubdomainPassword_frame:
  assumes "distinct (map id' tenants)"
    and "\<And>t a. f (t\<lparr> subdomainPassword := a \<rparr>) = f t"
  shows "map f (snd (postTenantSubdomainPassword tenants k pw)) = map f tenants"
proof (cases "verifyApiKey tenants k")
  case (Inl e)
  then show ?thesis by (simp add: postTenantSubdomainPassword_def)
next
  case (Inr t)
  then have "t \<in> set tenants" by (rule verifyApiKey_in_set)
  then have "map f (save (t\<lparr> subdomainPassword := a \<rparr>) tenants) = map f tenants" for a
    using assms by (intro save_frame [where t = t]) simp_all
  with Inr show ?thesis by (simp add: postTenantSubdomainPassword_def)
qed

lemma postTenantBranding_frame:
  assumes "distinct (map id' tenants)"
    and "\<And>t a. f (t\<lparr> domainSettings := a \<rparr>) = f t"
  shows "map f (snd (postTenantBranding tenants k body)) = map f tenants"
proof (cases "verifyApiKey tenants k")
  case (Inl e)
  then show ?thesis by (simp add: postTenantBranding_def)
next
  case (Inr t)
  then have "t \<in> set tenants" by (rule verifyApiKey_in_set)
  then have "map f (save (t\<lparr> domainSettings := a \<rparr>) tenants) = map f tenants" for a
    using assms by (intro save_frame [where t = t]) simp_all
  with Inr show ?thesis by (simp add: postTenantBranding_def Let_def)
qed

lemma postTenantVerifyDomain_frame:
  assumes "distinct (map id' tenants)"
    and "\<And>t a. f (t\<lparr> domainVerified := a \<rparr>) = f t"
  shows "map f (snd (postTenantVerifyDomain tenants k pointing)) = map f tenants"
proof (cases "verifyApiKey tenants k")
  case (Inl e)
  then show ?thesis by (simp add: postTenantVerifyDomain_def)
next
  case (Inr t)
  then have "t \<in> set tenants" by (rule verifyApiKey_in_set)
  then have "map f (save (t\<lparr> domainVerified := a \<rparr>) tenants) = map f tenants" for a
    using assms by (intro save_frame [where t = t]) simp_all
  with Inr show ?thesis by (simp add: postTenantVerifyDomain_def)
qed

text \<open>The three routes called with the key of \<open>beta\<close>.\<close>

lemma valid_docs_beta_io: "isValidDomain ''docs.beta.io''" by code_simp
lemma valid_beta2: "isValidSubdomain ''beta2''" by code_simp

lemma verify_beta: "verifyApiKey exTenants (Some ''key-beta'') = Inr beta"
  by (simp add: verifyApiKey_def truthy_def exTenants_def acme_def beta_def)

lemma save_beta:
  "id' b = ''t2'' \<Longrightarrow> save b exTenants = [acme, b, gamma]"
  by (simp add: save_def exTenants_def acme_def beta_def gamma_def)

lemma id_beta: "id' beta = ''t2''"
  by (simp add: beta_def)

lemma domain_run:
  "snd (postTenantDomain exTenants (Some ''key-beta'') (Some ''docs.beta.io'') (Some ''beta2'')) =
     [acme, beta\<lparr> customDomain := Some ''docs.beta.io'', subdomain := Some ''beta2'' \<rparr>, gamma]"
proof -
  have f1: "find (\<lambda>u. customDomain u = Some ''docs.beta.io'' \<and> id' u \<noteq> ''t2'') exTenants = None"
    by (simp add: exTenants_def acme_def beta_def gamma_def)
  have f2: "find (\<lambda>u. subdomain u = Some ''beta2'' \<and> id' u \<noteq> ''t2'') exTenants = None"
    by (simp add: exTenants_def acme_def beta_def gamma_def)
  have b: "beta\<lparr> customDomain := Some ''docs.beta.io'', subdomain := Some ''beta2'',
                 domainVerified := False \<rparr> =
           beta\<lparr> customDomain := Some ''docs.beta.io'', subdomain := Some ''beta2'' \<rparr>"
    by (simp add: beta_def)
  show ?thesis
    using valid_docs_beta_io valid_beta2
    by (simp add: postTenantDomain_def verify_beta truthy_def interp_def orElse_def Let_def
        f1 f2 b save_beta id_beta)
qed

lemma password_run:
  "snd (postTenantSubdomainPassword exTenants (Some ''key-beta'') (Some ''opensesame'')) =
     [acme, beta\<lparr> subdomainPassword := Some ''opensesame'' \<rparr>, gamma]"
  by (simp add: postTenantSubdomainPassword_def verify_beta truthy_def interp_def save_beta id_beta)

lemma branding_run:
  "snd (postTenantBranding exTenants (Some ''key-beta'') (noBranding\<lparr> logoUrl := Some ''x.png'' \<rparr>)) =
     [acme, beta\<lparr> domainSettings :=
                    noBranding\<lparr> logoUrl := Some ''x.png'', brandColor := Some ''#3B82F6'' \<rparr> \<rparr>, gamma]"
proof -
  have "domainSettings beta = noBranding" by (simp add: beta_def)
  then show ?thesis
    by (simp add: postTenantBranding_def verify_beta Let_def save_beta id_beta)
      (simp add: truthy_def orElse_def noBranding_def)
qed

text \<open>
  Claim C10. In a directory with distinct identifiers, the domain route, the
  subdomain-password route and the branding route leave the \<open>apiKey\<close> of every tenant as
  it was, whatever their arguments and whether they succeed or fail. More precisely the
  domain route changes nothing but \<open>customDomain\<close>, \<open>subdomain\<close> and \<open>domainVerified\<close>,
  the password route nothing but \<open>subdomainPassword\<close>, and the branding route nothing but
  \<open>domainSettings\<close>: with those fields blanked the directory before and after is the same.
\<close>

theorem C10_apiKey_frame:
  assumes "distinct (map id' tenants)"
  shows "map apiKey (snd (postTenantDomain tenants k cd sd)) = map apiKey tenants \<and>
         map apiKey (snd (postTenantSubdomainPassword tenants k pw)) = map apiKey tenants \<and>
         map apiKey (snd (postTenantBranding tenants k body)) = map apiKey tenants \<and>
         map (\<lambda>t. t\<lparr> customDomain := None, subdomain := None, domainVerified := False \<rparr>)
             (snd (postTenantDomain tenants k cd sd)) =
         map (\<lambda>t. t\<lparr> customDomain := None, subdomain := None, domainVerified := False \<rparr>)
             tenants \<and>
         map (\<lambda>t. t\<lparr> subdomainPassword := None \<rparr>)
             (snd (postTenantSubdomainPassword tenants k pw)) =
         map (\<lambda>t. t\<lparr> subdomainPassword := None \<rparr>) tenants \<and>
         map (\<lambda>t. t\<lparr> domainSettings := noBranding \<rparr>)
             (snd (postTenantBranding tenants k body)) =
         map (\<lambda>t. t\<lparr> domainSettings := noBranding \<rparr>) tenants"
proof -
  note d = assms
  have "map apiKey (snd (postTenantDomain tenants k cd sd)) = map apiKey tenants"
    by (rule postTenantDomain_frame [OF d]) simp
  moreover have "map apiKey (snd (postTenantSubdomainPassword tenants k pw)) = map apiKey tenants"
    by (rule postTenantSubdomainPassword_frame [OF d]) simp
  moreover have "map apiKey (snd (postTenantBranding tenants k body)) = map apiKey tenants"
    by (rule postTenantBranding_frame [OF d]) simp
  moreover have
    "map (\<lambda>t. t\<lparr> customDomain := None, subdomain := None, domainVerified := False \<rparr>)
         (snd (postTenantDomain tenants k cd sd)) =
     map (\<lambda>t. t\<lparr> customDomain := None, subdomain := None, domainVerified := False \<rparr>) tenants"
    by (rule postTenantDomain_frame [OF d]) simp
  moreover have
    "map (\<lambda>t. t\<lparr> subdomainPassword := None \<rparr>)
         (snd (postTenantSubdomainPassword tenants k pw)) =
     map (\<lambda>t. t\<lparr> subdomainPassword := None \<rparr>) tenants"
    by (rule postTenantSubdomainPassword_frame [OF d]) simp
  moreover have
    "map (\<lambda>t. t\<lparr> domainSettings := noBranding \<rparr>)
         (snd (postTenantBranding tenants k body)) =
     map (\<lambda>t. t\<lparr> domainSettings := noBranding \<rparr>) tenants"
    by (rule postTenantBranding_frame [OF d]) simp
  ultimately show ?thesis by blast
qed

text \<open>
  Each of the three calls changes the directory, and the keys are the ones issued.
\<close>

theorem C10_apiKey_frame_witness:
  "snd (postTenantDomain exTenants (Some ''key-beta'') (Some ''docs.beta.io'') (Some ''beta2'')) \<noteq> exTenants \<and>
   map apiKey (snd (postTenantDomain exTenants (Some ''key-beta'') (Some ''docs.beta.io'') (Some ''beta2''))) =
     [''key-acme'', ''key-beta'', ''key-gamma''] \<and>
   snd (postTenantSubdomainPassword exTenants (Some ''key-beta'') (Some ''opensesame'')) \<noteq> exTenants \<and>
   map apiKey (snd (postTenantSubdomainPassword exTenants (Some ''key-beta'') (Some ''opensesame''))) =
     [''key-acme'', ''key-beta'', ''key-gamma''] \<and>
   snd (postTenantBranding exTenants (Some ''key-beta'') (noBranding\<lparr> logoUrl := Some ''x.png'' \<rparr>)) \<noteq> exTenants \<and>
   map apiKey (snd (postTenantBranding exTenants (Some ''key-beta'') (noBranding\<lparr> logoUrl := Some ''x.png'' \<rparr>))) =
     [''key-acme'', ''key-beta'', ''key-gamma'']"
proof -
  have d: "distinct (map id' exTenants)"
    by (simp add: exTenants_def acme_def beta_def gamma_def)
  have k: "map apiKey exTenants = [''key-acme'', ''key-beta'', ''key-gamma'']"
    by (simp add: exTenants_def acme_def beta_def gamma_def)
  have c1: "snd (postTenantDomain exTenants (Some ''key-beta'') (Some ''docs.beta.io'') (Some ''beta2'')) \<noteq> exTenants"
    unfolding domain_run by (simp add: exTenants_def beta_def)
  have c2: "snd (postTenantSubdomainPassword exTenants (Some ''key-beta'') (Some ''opensesame'')) \<noteq> exTenants"
    unfolding password_run by (simp add: exTenants_def beta_def)
  have c3: "snd (postTenantBranding exTenants (Some ''key-beta'') (noBranding\<lparr> logoUrl := Some ''x.png'' \<rparr>)) \<noteq> exTenants"
    unfolding branding_run by (simp add: exTenants_def beta_def noBranding_def)
  from C10_apiKey_frame [OF d, of "Some ''key-beta''" "Some ''docs.beta.io''" "Some ''beta2''"
      "Some ''opensesame''" "noBranding\<lparr> logoUrl := Some ''x.png'' \<rparr>"]
  show ?thesis using c1 c2 c3 by (simp only: k simp_thms)
qed

end
